theory Spec2Isabelle
  imports Complex_Main "HOL-Library.Word"
begin

section \<open>Values exchanged with the handlers\<close>

text \<open>
  A Python float is an IEEE double: a finite double is a rational number, and the
  comparisons of two doubles are the comparisons of their exact values. The two
  infinities and NaN are kept apart, since \<open>float\<close> accepts their spellings.
\<close>

datatype pyfloat = Finite rat | PosInf | NegInf | NaN

fun float_ge :: "pyfloat \<Rightarrow> pyfloat \<Rightarrow> bool" where
  "float_ge NaN y = False"
| "float_ge x NaN = False"
| "float_ge PosInf y = True"
| "float_ge x NegInf = True"
| "float_ge NegInf y = False"
| "float_ge (Finite a) PosInf = False"
| "float_ge (Finite a) (Finite b) = (b \<le> a)"

fun float_lt :: "pyfloat \<Rightarrow> pyfloat \<Rightarrow> bool" where
  "float_lt NaN y = False"
| "float_lt x NaN = False"
| "float_lt PosInf y = False"
| "float_lt x NegInf = False"
| "float_lt NegInf y = True"
| "float_lt (Finite a) PosInf = True"
| "float_lt (Finite a) (Finite b) = (a < b)"

text \<open>
  The event a handler receives is decoded JSON: \<open>None\<close>, a bool, an int, a float, a
  str, a list or a dict with str keys. A dict is an association list in insertion
  order, looked up with \<open>map_of\<close>.
\<close>

datatype json =
    JNull
  | JBool bool
  | JInt int
  | JFloat pyfloat
  | JStr string
  | JArr "json list"
  | JObj "(string \<times> json) list"

type_synonym bytes = "8 word list"

text \<open>
  What a handler returns is a Python dict that may hold values JSON does not have
  (\<open>bytes\<close>) next to values taken from the event.
\<close>

datatype pyval =
    PJson json
  | PBytes bytes
  | PDict "(string \<times> pyval) list"

text \<open>
  The exceptions of the handlers. \<open>KeyError\<close> carries the missing key, \<open>TypeError\<close>
  its message, \<open>AttributeError\<close> the type name and the attribute, \<open>ValueError\<close> the
  string \<open>float\<close> refused; \<open>LibraryError\<close> is any exception raised inside a call
  into boto3 or the operating system.
\<close>

datatype error =
    KeyError string
  | TypeError string
  | AttributeError string string
  | IndexError
  | ValueError string
  | LibraryError string

section \<open>The Python operations the handlers use\<close>

fun type_name :: "json \<Rightarrow> string" where
  "type_name JNull = ''NoneType''"
| "type_name (JBool b) = ''bool''"
| "type_name (JInt i) = ''int''"
| "type_name (JFloat f) = ''float''"
| "type_name (JStr s) = ''str''"
| "type_name (JArr xs) = ''list''"
| "type_name (JObj kvs) = ''dict''"

text \<open>\<open>v[k]\<close> with a str key \<open>k\<close>: only a dict can be subscripted with a str.\<close>

fun subscript :: "json \<Rightarrow> string \<Rightarrow> error + json" where
  "subscript (JObj kvs) k =
     (case map_of kvs k of None \<Rightarrow> Inl (KeyError k) | Some v \<Rightarrow> Inr v)"
| "subscript (JStr s) k = Inl (TypeError ''string indices must be integers'')"
| "subscript (JArr xs) k =
     Inl (TypeError ''list indices must be integers or slices, not str'')"
| "subscript v k =
     Inl (TypeError ([CHR 0x27] @ type_name v @ [CHR 0x27] @ '' object is not subscriptable''))"

text \<open>
  \<open>s.split(sep)\<close> for a one-character separator: the pieces between the
  occurrences of \<open>sep\<close>, one more piece than there are occurrences.
\<close>

fun split_from :: "char \<Rightarrow> string \<Rightarrow> string \<Rightarrow> string list" where
  "split_from sep acc [] = [rev acc]"
| "split_from sep acc (c # cs) =
     (if c = sep then rev acc # split_from sep [] cs else split_from sep (c # acc) cs)"

definition str_split :: "string \<Rightarrow> char \<Rightarrow> string list" where
  "str_split s sep = split_from sep [] s"

text \<open>\<open>v.split(sep)\<close> on a decoded JSON value: only str has the method.\<close>

fun split_method :: "json \<Rightarrow> char \<Rightarrow> error + string list" where
  "split_method (JStr s) sep = Inr (str_split s sep)"
| "split_method v sep = Inl (AttributeError (type_name v) ''split'')"

text \<open>\<open>xs[i]\<close> for a list and an index that is not negative.\<close>

definition list_index :: "'a list \<Rightarrow> nat \<Rightarrow> error + 'a" where
  "list_index xs i = (if i < length xs then Inr (xs ! i) else Inl IndexError)"

text \<open>
  A list comprehension \<open>[f(x) for x in xs]\<close>: the elements are computed from left to
  right and the first exception ends the comprehension.
\<close>

fun comprehension :: "('a \<Rightarrow> error + 'b) \<Rightarrow> 'a list \<Rightarrow> error + 'b list" where
  "comprehension f [] = Inr []"
| "comprehension f (x # xs) =
     (case f x of
        Inl e \<Rightarrow> Inl e
      | Inr y \<Rightarrow> (case comprehension f xs of Inl e \<Rightarrow> Inl e | Inr ys \<Rightarrow> Inr (y # ys)))"

fun any_py :: "bool list \<Rightarrow> bool" where
  "any_py [] = False"
| "any_py (b # bs) = (b \<or> any_py bs)"

text \<open>
  The operand of a \<open>raise\<close> statement is an object. Python 3 raises it when it is an
  exception, and raises a \<open>TypeError\<close> of its own when it is anything else.
\<close>

datatype raise_operand = ExceptionObject error | StrObject string

fun raise_stmt :: "raise_operand \<Rightarrow> error" where
  "raise_stmt (ExceptionObject e) = e"
| "raise_stmt (StrObject s) = TypeError ''exceptions must derive from BaseException''"

section \<open>The threshold handler\<close>

text \<open>
  \<open>THRESHOLD = .70\<close>: the double nearest to 7/10, which is
  \<open>0x1.6666666666666p-1 = 3152519739159347 / 2^52\<close>.
\<close>

definition THRESHOLD :: pyfloat where
  "THRESHOLD = Finite (3152519739159347 / 4503599627370496)"

text \<open>
  The builtin \<open>float\<close> on a str and \<open>json.dumps\<close> are library code: the handler
  takes them as \<open>float_of\<close> (\<open>None\<close> where \<open>float\<close> raises \<open>ValueError\<close>) and
  \<open>json_dumps\<close>. The element of the comprehension is
  \<open>float(x.split(":")[1]) >= THRESHOLD\<close>.
\<close>

definition confidence_meets ::
  "(string \<Rightarrow> pyfloat option) \<Rightarrow> string \<Rightarrow> error + bool" where
  "confidence_meets float_of x =
     (case list_index (str_split x CHR '':'') 1 of
        Inl e \<Rightarrow> Inl e
      | Inr field \<Rightarrow>
          (case float_of field of
             None \<Rightarrow> Inl (ValueError field)
           | Some v \<Rightarrow> Inr (float_ge v THRESHOLD)))"

definition threshold_lambda_handler ::
  "(string \<Rightarrow> pyfloat option) \<Rightarrow> (json \<Rightarrow> string) \<Rightarrow> json \<Rightarrow> 'c
     \<Rightarrow> error + (string \<times> pyval) list" where
  "threshold_lambda_handler float_of json_dumps event context =
     (case subscript event ''inferences'' of
        Inl e \<Rightarrow> Inl e
      | Inr inferences \<Rightarrow>
          (case split_method inferences CHR '','' of
             Inl e \<Rightarrow> Inl e
           | Inr entries \<Rightarrow>
               (case comprehension (confidence_meets float_of) entries of
                  Inl e \<Rightarrow> Inl e
                | Inr flags \<Rightarrow>
                    (let meets_threshold = any_py flags in
                     if meets_threshold
                     then Inr [(''statusCode'', PJson (JInt 200)),
                               (''body'', PJson (JStr (json_dumps event)))]
                     else Inl (raise_stmt (StrObject ''THRESHOLD_CONFIDENCE_NOT_MET''))))))"

text \<open>
  The value \<open>float(x.split(":")[1])\<close> of an entry, \<open>None\<close> where the expression
  raises: the parsed confidence value of the entry.
\<close>

definition parsed_confidence ::
  "(string \<Rightarrow> pyfloat option) \<Rightarrow> string \<Rightarrow> pyfloat option" where
  "parsed_confidence float_of x =
     (case list_index (str_split x CHR '':'') 1 of
        Inl e \<Rightarrow> None
      | Inr field \<Rightarrow> float_of field)"

section \<open>The serialize handler and the classifier handler\<close>

text \<open>\<open>base64.b64encode\<close>: three bytes become four digits, the tail is padded with \<open>=\<close>.\<close>

definition b64_alphabet :: string where
  "b64_alphabet = ''ABCDEFGHIJKLMNOPQRSTUVWXYZabcdefghijklmnopqrstuvwxyz0123456789+/''"

definition b64_digit :: "nat \<Rightarrow> 8 word" where
  "b64_digit n = of_nat (of_char (b64_alphabet ! (n mod 64)))"

definition b64_pad :: "8 word" where
  "b64_pad = of_nat (of_char CHR ''='')"

fun b64encode :: "bytes \<Rightarrow> bytes" where
  "b64encode [] = []"
| "b64encode [a] =
     (let n = unat a * 65536
      in [b64_digit (n div 262144), b64_digit (n div 4096), b64_pad, b64_pad])"
| "b64encode [a, b] =
     (let n = unat a * 65536 + unat b * 256
      in [b64_digit (n div 262144), b64_digit (n div 4096), b64_digit (n div 64), b64_pad])"
| "b64encode (a # b # c # rest) =
     (let n = unat a * 65536 + unat b * 256 + unat c
      in [b64_digit (n div 262144), b64_digit (n div 4096), b64_digit (n div 64), b64_digit n]
         @ b64encode rest)"

text \<open>\<open>v.keys()\<close> on a decoded JSON value: only dict has the method.\<close>

fun dict_keys :: "json \<Rightarrow> error + string list" where
  "dict_keys (JObj kvs) = Inr (map fst kvs)"
| "dict_keys v = Inl (AttributeError (type_name v) ''keys'')"

text \<open>
  The calls that leave the program act on a world \<open>'w\<close> (the object store, the file
  system, the standard output) and are parameters of the handlers:
  \<open>s3.download_file(bucket, key, path)\<close>, which returns nothing or raises;
  \<open>open(path, "rb")\<close> followed by \<open>f.read()\<close> and the close of the \<open>with\<close> block,
  which returns the bytes or raises; and \<open>print(label, keys)\<close>.
\<close>

record 'w platform =
  download_file :: "json \<Rightarrow> json \<Rightarrow> string \<Rightarrow> 'w \<Rightarrow> (error + unit) \<times> 'w"
  read_binary :: "string \<Rightarrow> 'w \<Rightarrow> (error + bytes) \<times> 'w"
  print_keys :: "string \<Rightarrow> string list \<Rightarrow> 'w \<Rightarrow> 'w"

definition serialize_lambda_handler ::
  "'w platform \<Rightarrow> json \<Rightarrow> 'c \<Rightarrow> 'w \<Rightarrow> (error + (string \<times> pyval) list) \<times> 'w" where
  "serialize_lambda_handler env event context w =
     (case subscript event ''s3_key'' of
        Inl e \<Rightarrow> (Inl e, w)
      | Inr key \<Rightarrow>
          (case subscript event ''s3_bucket'' of
             Inl e \<Rightarrow> (Inl e, w)
           | Inr bucket \<Rightarrow>
               (case download_file env bucket key ''/tmp/image.png'' w of
                  (Inl e, w1) \<Rightarrow> (Inl e, w1)
                | (Inr u, w1) \<Rightarrow>
                    (case read_binary env ''/tmp/image.png'' w1 of
                       (Inl e, w2) \<Rightarrow> (Inl e, w2)
                     | (Inr content, w2) \<Rightarrow>
                         (let image_data = b64encode content in
                          case dict_keys event of
                            Inl e \<Rightarrow> (Inl e, w2)
                          | Inr ks \<Rightarrow>
                              (Inr [(''statusCode'', PJson (JInt 200)),
                                    (''body'', PDict [(''image_data'', PBytes image_data),
                                                      (''s3_bucket'', PJson bucket),
                                                      (''s3_key'', PJson key),
                                                      (''inferences'', PJson (JArr []))])],
                               print_keys env ''Event:'' ks w2))))))"

text \<open>The second handler of the file, under the heading of the classifier.\<close>

definition classifier_lambda_handler ::
  "'w platform \<Rightarrow> json \<Rightarrow> 'c \<Rightarrow> 'w \<Rightarrow> (error + (string \<times> pyval) list) \<times> 'w" where
  "classifier_lambda_handler env event context w =
     (case subscript event ''s3_key'' of
        Inl e \<Rightarrow> (Inl e, w)
      | Inr key \<Rightarrow>
          (case subscript event ''s3_bucket'' of
             Inl e \<Rightarrow> (Inl e, w)
           | Inr bucket \<Rightarrow>
               (case download_file env bucket key ''/tmp/image.png'' w of
                  (Inl e, w1) \<Rightarrow> (Inl e, w1)
                | (Inr u, w1) \<Rightarrow>
                    (case read_binary env ''/tmp/image.png'' w1 of
                       (Inl e, w2) \<Rightarrow> (Inl e, w2)
                     | (Inr content, w2) \<Rightarrow>
                         (let image_data = b64encode content in
                          case dict_keys event of
                            Inl e \<Rightarrow> (Inl e, w2)
                          | Inr ks \<Rightarrow>
                              (Inr [(''statusCode'', PJson (JInt 200)),
                                    (''body'', PDict [(''image_data'', PBytes image_data),
                                                      (''s3_bucket'', PJson bucket),
                                                      (''s3_key'', PJson key),
                                                      (''inferences'', PJson (JArr []))])],
                               print_keys env ''Event:'' ks w2))))))"

text \<open>The field \<open>k\<close> of the \<open>body\<close> of a returned dict.\<close>

definition body_field :: "(string \<times> pyval) list \<Rightarrow> string \<Rightarrow> pyval option" where
  "body_field r k =
     (case map_of r ''body'' of
        Some (PDict d) \<Rightarrow> map_of d k
      | _ \<Rightarrow> None)"

section \<open>An in-memory platform for concrete runs\<close>

text \<open>
  An object store, a file system and a standard output held in lists. A download
  copies the object to the path and fails where the bucket or the key is not a str or
  the object is missing; a read fails where the file is missing.
\<close>

record store =
  objects :: "((string \<times> string) \<times> bytes) list"
  files :: "(string \<times> bytes) list"
  stdout :: "(string \<times> string list) list"

definition store_download_file ::
  "json \<Rightarrow> json \<Rightarrow> string \<Rightarrow> store \<Rightarrow> (error + unit) \<times> store" where
  "store_download_file bucket key path w =
     (case (bucket, key) of
        (JStr b, JStr k) \<Rightarrow>
          (case map_of (objects w) (b, k) of
             None \<Rightarrow> (Inl (LibraryError ''ClientError''), w)
           | Some content \<Rightarrow> (Inr (), w\<lparr>files := (path, content) # files w\<rparr>))
      | _ \<Rightarrow> (Inl (LibraryError ''ParamValidationError''), w))"

definition store_read_binary :: "string \<Rightarrow> store \<Rightarrow> (error + bytes) \<times> store" where
  "store_read_binary path w =
     (case map_of (files w) path of
        None \<Rightarrow> (Inl (LibraryError ''FileNotFoundError''), w)
      | Some content \<Rightarrow> (Inr content, w))"

definition store_print_keys :: "string \<Rightarrow> string list \<Rightarrow> store \<Rightarrow> store" where
  "store_print_keys label ks w = w\<lparr>stdout := stdout w @ [(label, ks)]\<rparr>"

definition store_platform :: "store platform" where
  "store_platform =
     \<lparr>download_file = store_download_file,
      read_binary = store_read_binary,
      print_keys = store_print_keys\<rparr>"

text \<open>
  The test object of the file, \<open>{"image_data": "", "s3_bucket": ..., "s3_key": ...}\<close>,
  and a store that holds the five bytes \<open>hello\<close> under that bucket and key.
\<close>

definition test_event :: json where
  "test_event =
     JObj [(''image_data'', JStr []),
           (''s3_bucket'', JStr ''sagemaker-us-east-1-605922365623''),
           (''s3_key'', JStr ''test/bicycle_s_000513.png'')]"

definition test_store :: store where
  "test_store =
     \<lparr>objects = [((''sagemaker-us-east-1-605922365623'', ''test/bicycle_s_000513.png''),
                  [104, 101, 108, 108, 111])],
      files = [],
      stdout = []\<rparr>"

text \<open>
  The values of \<open>float\<close> at the literals of the examples (each is a double exactly),
  and two events for the threshold handler with what \<open>json.dumps\<close> gives for them.
\<close>

definition example_float :: "string \<Rightarrow> pyfloat option" where
  "example_float =
     map_of [(''0.75'', Finite (3 / 4)), (''0.25'', Finite (1 / 4)), (''0.5'', Finite (1 / 2))]"

definition event_met :: json where
  "event_met = JObj [(''inferences'', JStr ''bicycle:0.75,motorcycle:0.25'')]"

definition event_not_met :: json where
  "event_not_met = JObj [(''inferences'', JStr ''bicycle:0.5,motorcycle:0.25'')]"

definition example_dumps :: "json \<Rightarrow> string" where
  "example_dumps j =
     (if j = event_met then ''{\"inferences\": \"bicycle:0.75,motorcycle:0.25\"}''
      else if j = event_not_met then ''{\"inferences\": \"bicycle:0.5,motorcycle:0.25\"}''
      else ''null'')"

section \<open>Properties of the threshold handler\<close>

lemma comprehension_Inr_iff:
  "comprehension f xs = Inr ys \<longleftrightarrow> map f xs = map Inr ys"
proof (induction xs arbitrary: ys)
  case Nil
  then show ?case by auto
next
  case (Cons x xs)
  show ?case
  proof (cases ys)
    case Nil
    then show ?thesis by (simp split: sum.splits)
  next
    case (Cons y ys')
    with Cons.IH [of ys'] show ?thesis by (auto split: sum.splits)
  qed
qed

lemma comprehension_Inr_total:
  "(\<forall>x \<in> set xs. \<exists>y. f x = Inr y) \<Longrightarrow> \<exists>ys. comprehension f xs = Inr ys"
  by (induction xs) (auto split: sum.splits)

lemma any_py_iff: "any_py bs \<longleftrightarrow> True \<in> set bs"
  by (induction bs) auto

lemma confidence_meets_Inr_iff:
  "confidence_meets float_of x = Inr b \<longleftrightarrow>
     (\<exists>v. parsed_confidence float_of x = Some v \<and> b = float_ge v THRESHOLD)"
  by (auto simp: confidence_meets_def parsed_confidence_def split: sum.splits option.splits)

lemma flags_meet_iff:
  assumes "comprehension (confidence_meets float_of) xs = Inr flags"
  shows "any_py flags \<longleftrightarrow>
     (\<exists>x \<in> set xs. \<exists>v. parsed_confidence float_of x = Some v \<and> float_ge v THRESHOLD)"
proof -
  from assms have m: "map (confidence_meets float_of) xs = map Inr flags"
    by (simp add: comprehension_Inr_iff)
  have "True \<in> set flags \<longleftrightarrow> Inr True \<in> set (map (confidence_meets float_of) xs)"
    unfolding m by auto
  also have "\<dots> \<longleftrightarrow> (\<exists>x \<in> set xs. confidence_meets float_of x = Inr True)"
    by (force simp: image_iff)
  also have "\<dots> \<longleftrightarrow>
     (\<exists>x \<in> set xs. \<exists>v. parsed_confidence float_of x = Some v \<and> float_ge v THRESHOLD)"
    by (simp add: confidence_meets_Inr_iff)
  finally show ?thesis by (simp add: any_py_iff)
qed

lemma flags_exist_iff:
  "(\<exists>flags. comprehension (confidence_meets float_of) xs = Inr flags) \<longleftrightarrow>
     (\<forall>x \<in> set xs. parsed_confidence float_of x \<noteq> None)"
proof
  assume "\<exists>flags. comprehension (confidence_meets float_of) xs = Inr flags"
  then obtain flags where "map (confidence_meets float_of) xs = map Inr flags"
    by (auto simp: comprehension_Inr_iff)
  then have "\<forall>x \<in> set xs. \<exists>b. confidence_meets float_of x = Inr b"
    by (metis (no_types, lifting) image_iff list.set_map imageE)
  then show "\<forall>x \<in> set xs. parsed_confidence float_of x \<noteq> None"
    by (auto simp: confidence_meets_Inr_iff)
next
  assume "\<forall>x \<in> set xs. parsed_confidence float_of x \<noteq> None"
  then have "\<forall>x \<in> set xs. \<exists>b. confidence_meets float_of x = Inr b"
    by (auto simp: confidence_meets_Inr_iff)
  then show "\<exists>flags. comprehension (confidence_meets float_of) xs = Inr flags"
    by (rule comprehension_Inr_total)
qed

lemma float_lt_not_ge: "float_lt x y \<Longrightarrow> \<not> float_ge x y"
  by (cases x; cases y) auto

text \<open>
  When the threshold handler returns, and what: the field is a str, every entry has a
  parsed value, one of the values reaches the threshold, and the result is the status
  with the serialized event.
\<close>

lemma threshold_returns_iff:
  "threshold_lambda_handler float_of json_dumps event context = Inr r \<longleftrightarrow>
     (\<exists>s. subscript event ''inferences'' = Inr (JStr s)
        \<and> (\<forall>x \<in> set (str_split s CHR '',''). parsed_confidence float_of x \<noteq> None)
        \<and> (\<exists>x \<in> set (str_split s CHR '',''). \<exists>v.
              parsed_confidence float_of x = Some v \<and> float_ge v THRESHOLD))
     \<and> r = [(''statusCode'', PJson (JInt 200)), (''body'', PJson (JStr (json_dumps event)))]"
  (is "?L \<longleftrightarrow> ?R")
proof (cases "subscript event ''inferences''")
  case (Inl e)
  then show ?thesis by (simp add: threshold_lambda_handler_def)
next
  case (Inr inferences)
  show ?thesis
  proof (cases inferences)
    case (JStr s)
    show ?thesis
    proof (cases "comprehension (confidence_meets float_of) (str_split s CHR '','')")
      case (Inl e)
      then have "\<not> (\<forall>x \<in> set (str_split s CHR '',''). parsed_confidence float_of x \<noteq> None)"
        using flags_exist_iff [of float_of "str_split s CHR '',''"] by auto
      with Inl Inr JStr show ?thesis by (auto simp: threshold_lambda_handler_def)
    next
      case flags: (Inr flags)
      then have "\<forall>x \<in> set (str_split s CHR '',''). parsed_confidence float_of x \<noteq> None"
        using flags_exist_iff [of float_of "str_split s CHR '',''"] by blast
      with flags Inr JStr flags_meet_iff [OF flags] show ?thesis
        by (auto simp: threshold_lambda_handler_def Let_def)
    qed
  qed (simp_all add: threshold_lambda_handler_def Inr)
qed

lemma threshold_not_met_error:
  assumes "subscript event ''inferences'' = Inr (JStr s)"
    and "\<forall>x \<in> set (str_split s CHR '',''). parsed_confidence float_of x \<noteq> None"
    and "\<not> (\<exists>x \<in> set (str_split s CHR '',''). \<exists>v.
              parsed_confidence float_of x = Some v \<and> float_ge v THRESHOLD)"
  shows "threshold_lambda_handler float_of json_dumps event context =
           Inl (TypeError ''exceptions must derive from BaseException'')"
proof -
  from assms(2) obtain flags
    where flags: "comprehension (confidence_meets float_of) (str_split s CHR '','') = Inr flags"
    using flags_exist_iff [of float_of "str_split s CHR '',''"] by blast
  from flags_meet_iff [OF flags] assms(3) have "\<not> any_py flags" by simp
  with flags assms(1) show ?thesis
    by (simp add: threshold_lambda_handler_def)
qed

subsection \<open>Concrete runs\<close>

lemma event_met_inferences:
  "subscript event_met ''inferences'' = Inr (JStr ''bicycle:0.75,motorcycle:0.25'')"
  by (simp add: event_met_def)

lemma event_not_met_inferences:
  "subscript event_not_met ''inferences'' = Inr (JStr ''bicycle:0.5,motorcycle:0.25'')"
  by (simp add: event_not_met_def)

lemma entries_met:
  "str_split ''bicycle:0.75,motorcycle:0.25'' CHR '','' = [''bicycle:0.75'', ''motorcycle:0.25'']"
  by (simp add: str_split_def)

lemma entries_not_met:
  "str_split ''bicycle:0.5,motorcycle:0.25'' CHR '','' = [''bicycle:0.5'', ''motorcycle:0.25'']"
  by (simp add: str_split_def)

lemma parsed_examples:
  "parsed_confidence example_float ''bicycle:0.75'' = Some (Finite (3 / 4))"
  "parsed_confidence example_float ''bicycle:0.5'' = Some (Finite (1 / 2))"
  "parsed_confidence example_float ''motorcycle:0.25'' = Some (Finite (1 / 4))"
  by (simp_all add: parsed_confidence_def str_split_def list_index_def example_float_def)

lemma threshold_examples:
  "float_ge (Finite (3 / 4)) THRESHOLD"
  "float_lt (Finite (1 / 2)) THRESHOLD"
  "float_lt (Finite (1 / 4)) THRESHOLD"
  by (simp_all add: THRESHOLD_def)

subsection \<open>The claims about the threshold handler\<close>

text \<open>
  Claim C1. For every event whose \<open>inferences\<close> field is a str of which every
  comma-separated entry has a parsed confidence value, the threshold handler returns a
  result with \<open>statusCode\<close> 200 when at least one parsed value is at least
  \<open>THRESHOLD\<close>, and raises when every parsed value is below \<open>THRESHOLD\<close>.
\<close>

theorem threshold_handler_decides:
  assumes "subscript event ''inferences'' = Inr (JStr s)"
    and "\<forall>x \<in> set (str_split s CHR '',''). parsed_confidence float_of x \<noteq> None"
  shows "((\<exists>x \<in> set (str_split s CHR '',''). \<exists>v.
             parsed_confidence float_of x = Some v \<and> float_ge v THRESHOLD) \<longrightarrow>
          (\<exists>r. threshold_lambda_handler float_of json_dumps event context = Inr r
              \<and> map_of r ''statusCode'' = Some (PJson (JInt 200))))
       \<and> ((\<forall>x \<in> set (str_split s CHR '',''). \<exists>v.
             parsed_confidence float_of x = Some v \<and> float_lt v THRESHOLD) \<longrightarrow>
          (\<exists>e. threshold_lambda_handler float_of json_dumps event context = Inl e))"
proof (intro conjI impI)
  assume "\<exists>x \<in> set (str_split s CHR '',''). \<exists>v.
            parsed_confidence float_of x = Some v \<and> float_ge v THRESHOLD"
  with assms have "threshold_lambda_handler float_of json_dumps event context =
      Inr [(''statusCode'', PJson (JInt 200)), (''body'', PJson (JStr (json_dumps event)))]"
    by (simp add: threshold_returns_iff)
  then show "\<exists>r. threshold_lambda_handler float_of json_dumps event context = Inr r
              \<and> map_of r ''statusCode'' = Some (PJson (JInt 200))"
    by simp
next
  assume lt: "\<forall>x \<in> set (str_split s CHR '',''). \<exists>v.
            parsed_confidence float_of x = Some v \<and> float_lt v THRESHOLD"
  have "\<not> (\<exists>x \<in> set (str_split s CHR '',''). \<exists>v.
            parsed_confidence float_of x = Some v \<and> float_ge v THRESHOLD)"
  proof
    assume "\<exists>x \<in> set (str_split s CHR '',''). \<exists>v.
            parsed_confidence float_of x = Some v \<and> float_ge v THRESHOLD"
    then obtain x v where x: "x \<in> set (str_split s CHR '','')"
      and v: "parsed_confidence float_of x = Some v" "float_ge v THRESHOLD"
      by blast
    from lt x v(1) have "float_lt v THRESHOLD" by auto
    with v(2) show False by (simp add: float_lt_not_ge)
  qed
  with assms show "\<exists>e. threshold_lambda_handler float_of json_dumps event context = Inl e"
    by (simp add: threshold_not_met_error)
qed

text \<open>
  Claim C1 at \<open>"bicycle:0.75,motorcycle:0.25"\<close>, which returns, and at
  \<open>"bicycle:0.5,motorcycle:0.25"\<close>, which raises.
\<close>

theorem threshold_handler_decides_witness:
  "(\<exists>r. threshold_lambda_handler example_float example_dumps event_met () = Inr r
       \<and> map_of r ''statusCode'' = Some (PJson (JInt 200)))
   \<and> (\<exists>e. threshold_lambda_handler example_float example_dumps event_not_met () = Inl e)"
proof
  show "\<exists>r. threshold_lambda_handler example_float example_dumps event_met () = Inr r
       \<and> map_of r ''statusCode'' = Some (PJson (JInt 200))"
    using threshold_handler_decides [OF event_met_inferences, of example_float example_dumps "()"]
    by (simp add: entries_met parsed_examples threshold_examples)
  show "\<exists>e. threshold_lambda_handler example_float example_dumps event_not_met () = Inl e"
    using threshold_handler_decides [OF event_not_met_inferences, of example_float example_dumps "()"]
    by (simp add: entries_not_met parsed_examples threshold_examples)
qed

text \<open>
  Claim C4. Whenever no parsed confidence value of the \<open>inferences\<close> str reaches
  \<open>THRESHOLD\<close>, the threshold handler ends with an exception and returns no value:
  nothing in the handler catches the exception or tries again.
\<close>

theorem threshold_not_met_aborts:
  assumes "subscript event ''inferences'' = Inr (JStr s)"
    and "\<not> (\<exists>x \<in> set (str_split s CHR '',''). \<exists>v.
              parsed_confidence float_of x = Some v \<and> float_ge v THRESHOLD)"
  shows "(\<exists>e. threshold_lambda_handler float_of json_dumps event context = Inl e)
       \<and> (\<forall>r. threshold_lambda_handler float_of json_dumps event context \<noteq> Inr r)"
proof -
  from assms have no: "\<forall>r. threshold_lambda_handler float_of json_dumps event context \<noteq> Inr r"
    by (auto simp: threshold_returns_iff)
  then show ?thesis
    by (cases "threshold_lambda_handler float_of json_dumps event context") auto
qed

text \<open>
  Claim C4 at \<open>"bicycle:0.5,motorcycle:0.25"\<close>.
\<close>

theorem threshold_not_met_aborts_witness:
  "(\<exists>e. threshold_lambda_handler example_float example_dumps event_not_met () = Inl e)
   \<and> (\<forall>r. threshold_lambda_handler example_float example_dumps event_not_met () \<noteq> Inr r)"
  using threshold_not_met_aborts [OF event_not_met_inferences, of example_float example_dumps "()"]
    float_lt_not_ge [OF threshold_examples(2)] float_lt_not_ge [OF threshold_examples(3)]
  by (simp add: entries_not_met parsed_examples)

text \<open>
  Claim C8. The threshold handler returns exactly on the success path (the field is a
  str, every entry has a parsed value, some value reaches \<open>THRESHOLD\<close>), and what it
  returns is \<open>statusCode\<close> 200 with, as \<open>body\<close>, \<open>json.dumps\<close> of the event it was
  given, the whole event as it came in.
\<close>

theorem threshold_success_returns_serialized_event:
  "threshold_lambda_handler float_of json_dumps event context = Inr r \<longleftrightarrow>
     (\<exists>s. subscript event ''inferences'' = Inr (JStr s)
        \<and> (\<forall>x \<in> set (str_split s CHR '',''). parsed_confidence float_of x \<noteq> None)
        \<and> (\<exists>x \<in> set (str_split s CHR '',''). \<exists>v.
              parsed_confidence float_of x = Some v \<and> float_ge v THRESHOLD))
     \<and> r = [(''statusCode'', PJson (JInt 200)), (''body'', PJson (JStr (json_dumps event)))]"
  by (rule threshold_returns_iff)

text \<open>
  Claim C8 at \<open>{"inferences": "bicycle:0.75,motorcycle:0.25"}\<close>.
\<close>

theorem threshold_success_returns_serialized_event_witness:
  "threshold_lambda_handler example_float example_dumps event_met () =
     Inr [(''statusCode'', PJson (JInt 200)),
          (''body'', PJson (JStr ''{\"inferences\": \"bicycle:0.75,motorcycle:0.25\"}''))]"
  using threshold_success_returns_serialized_event
    [of example_float example_dumps event_met "()"
        "[(''statusCode'', PJson (JInt 200)),
          (''body'', PJson (JStr ''{\"inferences\": \"bicycle:0.75,motorcycle:0.25\"}''))]"]
  by (simp add: event_met_inferences entries_met parsed_examples threshold_examples example_dumps_def)

text \<open>
  Claim C10. On the failure branch (every entry has a parsed value and none reaches
  \<open>THRESHOLD\<close>) the statement \<open>raise("THRESHOLD_CONFIDENCE_NOT_MET")\<close> has a str as
  its operand, so the exception that leaves the handler is the \<open>TypeError\<close> of the
  \<open>raise\<close> statement itself, and the str is not part of it.
\<close>

theorem failure_branch_raises_TypeError:
  assumes "subscript event ''inferences'' = Inr (JStr s)"
    and "\<forall>x \<in> set (str_split s CHR '',''). parsed_confidence float_of x \<noteq> None"
    and "\<not> (\<exists>x \<in> set (str_split s CHR '',''). \<exists>v.
              parsed_confidence float_of x = Some v \<and> float_ge v THRESHOLD)"
  shows "threshold_lambda_handler float_of json_dumps event context =
           Inl (TypeError ''exceptions must derive from BaseException'')"
  using assms by (rule threshold_not_met_error)

text \<open>
  Claim C10 at \<open>"bicycle:0.5,motorcycle:0.25"\<close>.
\<close>

theorem failure_branch_raises_TypeError_witness:
  "threshold_lambda_handler example_float example_dumps event_not_met () =
     Inl (TypeError ''exceptions must derive from BaseException'')"
  using failure_branch_raises_TypeError [OF event_not_met_inferences, of example_float example_dumps "()"]
    float_lt_not_ge [OF threshold_examples(2)] float_lt_not_ge [OF threshold_examples(3)]
  by (simp add: entries_not_met parsed_examples)

text \<open>
  Claim C3. The claim is that the threshold handler accepts the shared record, in which
  \<open>inferences\<close> is a list of confidence scores. On the record with the list
  \<open>[0.75, 0.25]\<close> the handler ends in \<open>inferences.split(",")\<close> with an
  \<open>AttributeError\<close>, a list having no \<open>split\<close>, before any value is compared with
  \<open>THRESHOLD\<close>.
\<close>

theorem threshold_rejects_list_of_scores:
  "threshold_lambda_handler example_float example_dumps
     (JObj [(''inferences'', JArr [JFloat (Finite (3 / 4)), JFloat (Finite (1 / 4))]),
            (''s3_key'', JStr ''test/bicycle_s_000513.png''),
            (''s3_bucket'', JStr ''sagemaker-us-east-1-605922365623''),
            (''image_data'', JStr ''aGVsbG8='')]) ()
   = Inl (AttributeError ''list'' ''split'')"
  by (simp add: threshold_lambda_handler_def)

section \<open>Properties of the serialize handler and the classifier handler\<close>

lemma subscript_Inr_dict: "subscript event k = Inr v \<Longrightarrow> \<exists>kvs. event = JObj kvs"
  by (cases event) auto

lemma subscript_Inr_keys: "subscript event k = Inr v \<Longrightarrow> \<exists>ks. dict_keys event = Inr ks"
  by (auto dest: subscript_Inr_dict)

lemma serialize_returns:
  assumes "subscript event ''s3_key'' = Inr key"
    and "subscript event ''s3_bucket'' = Inr bucket"
    and "download_file env bucket key ''/tmp/image.png'' w = (Inr u, w1)"
    and "read_binary env ''/tmp/image.png'' w1 = (Inr content, w2)"
  shows "\<exists>ks. dict_keys event = Inr ks \<and>
           serialize_lambda_handler env event ctx w =
             (Inr [(''statusCode'', PJson (JInt 200)),
                   (''body'', PDict [(''image_data'', PBytes (b64encode content)),
                                     (''s3_bucket'', PJson bucket),
                                     (''s3_key'', PJson key),
                                     (''inferences'', PJson (JArr []))])],
              print_keys env ''Event:'' ks w2)"
proof -
  from assms(1) obtain ks where "dict_keys event = Inr ks"
    by (auto dest: subscript_Inr_keys)
  with assms show ?thesis
    by (simp add: serialize_lambda_handler_def)
qed

lemma serialize_Inr_shape:
  assumes "serialize_lambda_handler env event ctx w = (Inr r, w')"
  shows "\<exists>key bucket w1 content w2 ks.
           subscript event ''s3_key'' = Inr key
         \<and> subscript event ''s3_bucket'' = Inr bucket
         \<and> download_file env bucket key ''/tmp/image.png'' w = (Inr (), w1)
         \<and> read_binary env ''/tmp/image.png'' w1 = (Inr content, w2)
         \<and> dict_keys event = Inr ks
         \<and> w' = print_keys env ''Event:'' ks w2
         \<and> r = [(''statusCode'', PJson (JInt 200)),
                (''body'', PDict [(''image_data'', PBytes (b64encode content)),
                                  (''s3_bucket'', PJson bucket),
                                  (''s3_key'', PJson key),
                                  (''inferences'', PJson (JArr []))])]"
  using assms
  by (auto simp: serialize_lambda_handler_def split: sum.splits prod.splits)

lemma serialize_Inl_source:
  assumes "serialize_lambda_handler env event ctx w = (Inl e, w')"
  shows "(subscript event ''s3_key'' = Inl e \<and> w' = w)
       \<or> (\<exists>key. subscript event ''s3_key'' = Inr key
              \<and> subscript event ''s3_bucket'' = Inl e \<and> w' = w)
       \<or> (\<exists>key bucket. subscript event ''s3_key'' = Inr key
              \<and> subscript event ''s3_bucket'' = Inr bucket
              \<and> download_file env bucket key ''/tmp/image.png'' w = (Inl e, w'))
       \<or> (\<exists>key bucket w1. subscript event ''s3_key'' = Inr key
              \<and> subscript event ''s3_bucket'' = Inr bucket
              \<and> download_file env bucket key ''/tmp/image.png'' w = (Inr (), w1)
              \<and> read_binary env ''/tmp/image.png'' w1 = (Inl e, w'))"
proof (cases "subscript event ''s3_key''")
  case (Inl e')
  with assms show ?thesis by (simp add: serialize_lambda_handler_def)
next
  case key: (Inr key)
  then obtain ks where ks: "dict_keys event = Inr ks"
    by (auto dest: subscript_Inr_keys)
  show ?thesis
  proof (cases "subscript event ''s3_bucket''")
    case (Inl e')
    with assms key show ?thesis by (simp add: serialize_lambda_handler_def)
  next
    case bucket: (Inr bucket)
    obtain d w1 where d: "download_file env bucket key ''/tmp/image.png'' w = (d, w1)"
      by (cases "download_file env bucket key ''/tmp/image.png'' w")
    show ?thesis
    proof (cases d)
      case (Inl e')
      with assms key bucket d show ?thesis by (simp add: serialize_lambda_handler_def)
    next
      case (Inr u)
      obtain c w2 where c: "read_binary env ''/tmp/image.png'' w1 = (c, w2)"
        by (cases "read_binary env ''/tmp/image.png'' w1")
      from assms key bucket d Inr c ks show ?thesis
        by (cases c) (simp_all add: serialize_lambda_handler_def)
    qed
  qed
qed

lemma classifier_eq_serialize:
  "classifier_lambda_handler env event ctx w = serialize_lambda_handler env event ctx w"
  by (simp add: classifier_lambda_handler_def serialize_lambda_handler_def)

lemma handler_propagates:
  "(\<forall>e. subscript event ''s3_key'' = Inl e \<longrightarrow>
        serialize_lambda_handler env event ctx w = (Inl e, w))
 \<and> (\<forall>key e. subscript event ''s3_key'' = Inr key \<and> subscript event ''s3_bucket'' = Inl e \<longrightarrow>
        serialize_lambda_handler env event ctx w = (Inl e, w))
 \<and> (\<forall>key bucket e w1. subscript event ''s3_key'' = Inr key
        \<and> subscript event ''s3_bucket'' = Inr bucket
        \<and> download_file env bucket key ''/tmp/image.png'' w = (Inl e, w1) \<longrightarrow>
        serialize_lambda_handler env event ctx w = (Inl e, w1))
 \<and> (\<forall>key bucket w1 e w2. subscript event ''s3_key'' = Inr key
        \<and> subscript event ''s3_bucket'' = Inr bucket
        \<and> download_file env bucket key ''/tmp/image.png'' w = (Inr (), w1)
        \<and> read_binary env ''/tmp/image.png'' w1 = (Inl e, w2) \<longrightarrow>
        serialize_lambda_handler env event ctx w = (Inl e, w2))"
  by (simp add: serialize_lambda_handler_def)

lemma store_download_test:
  "download_file store_platform (JStr ''sagemaker-us-east-1-605922365623'')
       (JStr ''test/bicycle_s_000513.png'') ''/tmp/image.png'' test_store
     = (Inr (), test_store\<lparr>files := [(''/tmp/image.png'', [104, 101, 108, 108, 111])]\<rparr>)"
  by (simp add: store_platform_def store_download_file_def test_store_def)

lemma store_read_test:
  "read_binary store_platform ''/tmp/image.png''
       (test_store\<lparr>files := [(''/tmp/image.png'', [104, 101, 108, 108, 111])]\<rparr>)
     = (Inr [104, 101, 108, 108, 111],
        test_store\<lparr>files := [(''/tmp/image.png'', [104, 101, 108, 108, 111])]\<rparr>)"
  by (simp add: store_platform_def store_read_binary_def test_store_def)

lemma test_event_fields:
  "subscript test_event ''s3_key'' = Inr (JStr ''test/bicycle_s_000513.png'')"
  "subscript test_event ''s3_bucket'' = Inr (JStr ''sagemaker-us-east-1-605922365623'')"
  by (simp_all add: test_event_def)

lemma b64encode_hello:
  "b64encode [104, 101, 108, 108, 111] = [97, 71, 86, 115, 98, 71, 56, 61]"
  by (simp add: b64_digit_def b64_alphabet_def b64_pad_def Let_def)

subsection \<open>More concrete runs\<close>

lemma store_download_missing:
  "download_file store_platform (JStr ''sagemaker-us-east-1-605922365623'')
       (JStr ''test/bicycle_s_000513.png'') ''/tmp/image.png'' (test_store\<lparr>objects := []\<rparr>)
     = (Inl (LibraryError ''ClientError''), test_store\<lparr>objects := []\<rparr>)"
  by (simp add: store_platform_def store_download_file_def test_store_def)

lemma no_key: "subscript (JObj []) ''s3_key'' = Inl (KeyError ''s3_key'')"
  by simp

subsection \<open>The claims about the serialize handler and the classifier handler\<close>

text \<open>
  Claim C5. For every event that has \<open>s3_key\<close> and \<open>s3_bucket\<close>, the body the
  serialize handler returns has, as \<open>s3_key\<close> and \<open>s3_bucket\<close>, the values read from the
  event, unchanged; and the handler does return one whenever the download and the read
  of the file succeed.
\<close>

theorem serialize_preserves_key_and_bucket:
  assumes "subscript event ''s3_key'' = Inr key"
    and "subscript event ''s3_bucket'' = Inr bucket"
  shows "(\<forall>r w'. serialize_lambda_handler env event context w = (Inr r, w') \<longrightarrow>
            body_field r ''s3_key'' = Some (PJson key)
          \<and> body_field r ''s3_bucket'' = Some (PJson bucket))
       \<and> (\<forall>w1 content w2.
            download_file env bucket key ''/tmp/image.png'' w = (Inr (), w1)
          \<and> read_binary env ''/tmp/image.png'' w1 = (Inr content, w2) \<longrightarrow>
            (\<exists>r w'. serialize_lambda_handler env event context w = (Inr r, w')))"
proof (rule conjI)
  show "\<forall>r w'. serialize_lambda_handler env event context w = (Inr r, w') \<longrightarrow>
            body_field r ''s3_key'' = Some (PJson key)
          \<and> body_field r ''s3_bucket'' = Some (PJson bucket)"
  proof (intro allI impI)
    fix r w'
    assume "serialize_lambda_handler env event context w = (Inr r, w')"
    from serialize_Inr_shape [OF this] assms
    show "body_field r ''s3_key'' = Some (PJson key)
        \<and> body_field r ''s3_bucket'' = Some (PJson bucket)"
      by (auto simp: body_field_def)
  qed
next
  show "\<forall>w1 content w2.
            download_file env bucket key ''/tmp/image.png'' w = (Inr (), w1)
          \<and> read_binary env ''/tmp/image.png'' w1 = (Inr content, w2) \<longrightarrow>
            (\<exists>r w'. serialize_lambda_handler env event context w = (Inr r, w'))"
  proof (intro allI impI)
    fix w1 content w2
    assume "download_file env bucket key ''/tmp/image.png'' w = (Inr (), w1)
          \<and> read_binary env ''/tmp/image.png'' w1 = (Inr content, w2)"
    then have dl: "download_file env bucket key ''/tmp/image.png'' w = (Inr (), w1)"
      and rd: "read_binary env ''/tmp/image.png'' w1 = (Inr content, w2)"
      by simp_all
    from serialize_returns [OF assms dl rd, where ctx = "context"]
    show "\<exists>r w'. serialize_lambda_handler env event context w = (Inr r, w')"
      by auto
  qed
qed

text \<open>
  Claim C5 at the test object of the file, on a store that holds the object.
\<close>

theorem serialize_preserves_key_and_bucket_witness:
  "\<exists>r w'. serialize_lambda_handler store_platform test_event () test_store = (Inr r, w')
     \<and> body_field r ''s3_key'' = Some (PJson (JStr ''test/bicycle_s_000513.png''))
     \<and> body_field r ''s3_bucket'' = Some (PJson (JStr ''sagemaker-us-east-1-605922365623''))"
  using serialize_preserves_key_and_bucket
    [OF test_event_fields, of store_platform "()" test_store]
    store_download_test store_read_test
  by blast

text \<open>
  Claim C7. For every event that has \<open>s3_key\<close> and \<open>s3_bucket\<close>, the body the
  serialize handler returns has all four fields of the shared record, \<open>inferences\<close>,
  \<open>s3_key\<close>, \<open>s3_bucket\<close> and \<open>image_data\<close>; and the handler does return one whenever
  the download and the read of the file succeed.
\<close>

theorem serialize_body_has_all_fields:
  assumes "subscript event ''s3_key'' = Inr key"
    and "subscript event ''s3_bucket'' = Inr bucket"
  shows "(\<forall>r w'. serialize_lambda_handler env event context w = (Inr r, w') \<longrightarrow>
            body_field r ''inferences'' \<noteq> None
          \<and> body_field r ''s3_key'' \<noteq> None
          \<and> body_field r ''s3_bucket'' \<noteq> None
          \<and> body_field r ''image_data'' \<noteq> None)
       \<and> (\<forall>w1 content w2.
            download_file env bucket key ''/tmp/image.png'' w = (Inr (), w1)
          \<and> read_binary env ''/tmp/image.png'' w1 = (Inr content, w2) \<longrightarrow>
            (\<exists>r w'. serialize_lambda_handler env event context w = (Inr r, w')))"
proof (rule conjI)
  show "\<forall>r w'. serialize_lambda_handler env event context w = (Inr r, w') \<longrightarrow>
            body_field r ''inferences'' \<noteq> None
          \<and> body_field r ''s3_key'' \<noteq> None
          \<and> body_field r ''s3_bucket'' \<noteq> None
          \<and> body_field r ''image_data'' \<noteq> None"
  proof (intro allI impI)
    fix r w'
    assume "serialize_lambda_handler env event context w = (Inr r, w')"
    from serialize_Inr_shape [OF this]
    show "body_field r ''inferences'' \<noteq> None
        \<and> body_field r ''s3_key'' \<noteq> None
        \<and> body_field r ''s3_bucket'' \<noteq> None
        \<and> body_field r ''image_data'' \<noteq> None"
      by (auto simp: body_field_def)
  qed
next
  show "\<forall>w1 content w2.
            download_file env bucket key ''/tmp/image.png'' w = (Inr (), w1)
          \<and> read_binary env ''/tmp/image.png'' w1 = (Inr content, w2) \<longrightarrow>
            (\<exists>r w'. serialize_lambda_handler env event context w = (Inr r, w'))"
  proof (intro allI impI)
    fix w1 content w2
    assume "download_file env bucket key ''/tmp/image.png'' w = (Inr (), w1)
          \<and> read_binary env ''/tmp/image.png'' w1 = (Inr content, w2)"
    then have dl: "download_file env bucket key ''/tmp/image.png'' w = (Inr (), w1)"
      and rd: "read_binary env ''/tmp/image.png'' w1 = (Inr content, w2)"
      by simp_all
    from serialize_returns [OF assms dl rd, where ctx = "context"]
    show "\<exists>r w'. serialize_lambda_handler env event context w = (Inr r, w')"
      by auto
  qed
qed

text \<open>
  Claim C7 at the test object of the file, on a store that holds the object.
\<close>

theorem serialize_body_has_all_fields_witness:
  "\<exists>r w'. serialize_lambda_handler store_platform test_event () test_store = (Inr r, w')
     \<and> body_field r ''inferences'' \<noteq> None
     \<and> body_field r ''s3_key'' \<noteq> None
     \<and> body_field r ''s3_bucket'' \<noteq> None
     \<and> body_field r ''image_data'' \<noteq> None"
  using serialize_body_has_all_fields
    [OF test_event_fields, of store_platform "()" test_store]
    store_download_test store_read_test
  by blast

text \<open>
  Claim C6. The first two handlers handle no error. An exception of the access to
  \<open>s3_key\<close> or \<open>s3_bucket\<close>, of the download or of the read of the file leaves the
  handler as it was raised, with the world as the failing call left it; and every
  exception that leaves the handler is one of these, the handler raising none of its own.
\<close>

theorem first_two_handlers_propagate_failures:
  assumes "h = serialize_lambda_handler \<or> h = classifier_lambda_handler"
  shows "(\<forall>e. subscript event ''s3_key'' = Inl e \<longrightarrow> h env event context w = (Inl e, w))
   \<and> (\<forall>key e. subscript event ''s3_key'' = Inr key \<and> subscript event ''s3_bucket'' = Inl e \<longrightarrow>
          h env event context w = (Inl e, w))
   \<and> (\<forall>key bucket e w1. subscript event ''s3_key'' = Inr key
          \<and> subscript event ''s3_bucket'' = Inr bucket
          \<and> download_file env bucket key ''/tmp/image.png'' w = (Inl e, w1) \<longrightarrow>
          h env event context w = (Inl e, w1))
   \<and> (\<forall>key bucket w1 e w2. subscript event ''s3_key'' = Inr key
          \<and> subscript event ''s3_bucket'' = Inr bucket
          \<and> download_file env bucket key ''/tmp/image.png'' w = (Inr (), w1)
          \<and> read_binary env ''/tmp/image.png'' w1 = (Inl e, w2) \<longrightarrow>
          h env event context w = (Inl e, w2))
   \<and> (\<forall>e w'. h env event context w = (Inl e, w') \<longrightarrow>
          subscript event ''s3_key'' = Inl e
        \<or> (\<exists>key. subscript event ''s3_key'' = Inr key \<and> subscript event ''s3_bucket'' = Inl e)
        \<or> (\<exists>key bucket. subscript event ''s3_key'' = Inr key
              \<and> subscript event ''s3_bucket'' = Inr bucket
              \<and> download_file env bucket key ''/tmp/image.png'' w = (Inl e, w'))
        \<or> (\<exists>key bucket w1. subscript event ''s3_key'' = Inr key
              \<and> subscript event ''s3_bucket'' = Inr bucket
              \<and> download_file env bucket key ''/tmp/image.png'' w = (Inr (), w1)
              \<and> read_binary env ''/tmp/image.png'' w1 = (Inl e, w')))"
proof -
  have h: "h env event context w = serialize_lambda_handler env event context w"
    using assms by (auto simp: classifier_eq_serialize)
  have src: "\<forall>e w'. h env event context w = (Inl e, w') \<longrightarrow>
          subscript event ''s3_key'' = Inl e
        \<or> (\<exists>key. subscript event ''s3_key'' = Inr key \<and> subscript event ''s3_bucket'' = Inl e)
        \<or> (\<exists>key bucket. subscript event ''s3_key'' = Inr key
              \<and> subscript event ''s3_bucket'' = Inr bucket
              \<and> download_file env bucket key ''/tmp/image.png'' w = (Inl e, w'))
        \<or> (\<exists>key bucket w1. subscript event ''s3_key'' = Inr key
              \<and> subscript event ''s3_bucket'' = Inr bucket
              \<and> download_file env bucket key ''/tmp/image.png'' w = (Inr (), w1)
              \<and> read_binary env ''/tmp/image.png'' w1 = (Inl e, w'))"
  proof (intro allI impI)
    fix e w'
    assume "h env event context w = (Inl e, w')"
    then have "serialize_lambda_handler env event context w = (Inl e, w')"
      by (simp add: h)
    from serialize_Inl_source [OF this]
    show "subscript event ''s3_key'' = Inl e
        \<or> (\<exists>key. subscript event ''s3_key'' = Inr key \<and> subscript event ''s3_bucket'' = Inl e)
        \<or> (\<exists>key bucket. subscript event ''s3_key'' = Inr key
              \<and> subscript event ''s3_bucket'' = Inr bucket
              \<and> download_file env bucket key ''/tmp/image.png'' w = (Inl e, w'))
        \<or> (\<exists>key bucket w1. subscript event ''s3_key'' = Inr key
              \<and> subscript event ''s3_bucket'' = Inr bucket
              \<and> download_file env bucket key ''/tmp/image.png'' w = (Inr (), w1)
              \<and> read_binary env ''/tmp/image.png'' w1 = (Inl e, w'))"
      by blast
  qed
  have fwd:
    "(\<forall>e. subscript event ''s3_key'' = Inl e \<longrightarrow> h env event context w = (Inl e, w))
   \<and> (\<forall>key e. subscript event ''s3_key'' = Inr key \<and> subscript event ''s3_bucket'' = Inl e \<longrightarrow>
          h env event context w = (Inl e, w))
   \<and> (\<forall>key bucket e w1. subscript event ''s3_key'' = Inr key
          \<and> subscript event ''s3_bucket'' = Inr bucket
          \<and> download_file env bucket key ''/tmp/image.png'' w = (Inl e, w1) \<longrightarrow>
          h env event context w = (Inl e, w1))
   \<and> (\<forall>key bucket w1 e w2. subscript event ''s3_key'' = Inr key
          \<and> subscript event ''s3_bucket'' = Inr bucket
          \<and> download_file env bucket key ''/tmp/image.png'' w = (Inr (), w1)
          \<and> read_binary env ''/tmp/image.png'' w1 = (Inl e, w2) \<longrightarrow>
          h env event context w = (Inl e, w2))"
    unfolding h by (rule handler_propagates)
  from fwd src show ?thesis
    by (elim conjE, intro conjI) assumption+
qed

text \<open>
  Claim C6 at an event without \<open>s3_key\<close>, for the serialize handler, and at the test
  object on a store without the object, for the classifier handler.
\<close>

theorem first_two_handlers_propagate_failures_witness:
  "serialize_lambda_handler store_platform (JObj []) () test_store
     = (Inl (KeyError ''s3_key''), test_store)
   \<and> classifier_lambda_handler store_platform test_event () (test_store\<lparr>objects := []\<rparr>)
     = (Inl (LibraryError ''ClientError''), test_store\<lparr>objects := []\<rparr>)"
proof
  show "serialize_lambda_handler store_platform (JObj []) () test_store
     = (Inl (KeyError ''s3_key''), test_store)"
    using first_two_handlers_propagate_failures
      [of serialize_lambda_handler "JObj []" store_platform "()" test_store] no_key
    by blast
  show "classifier_lambda_handler store_platform test_event () (test_store\<lparr>objects := []\<rparr>)
     = (Inl (LibraryError ''ClientError''), test_store\<lparr>objects := []\<rparr>)"
    using first_two_handlers_propagate_failures
      [of classifier_lambda_handler test_event store_platform "()" "test_store\<lparr>objects := []\<rparr>"]
      test_event_fields store_download_missing
    by blast
qed

text \<open>
  Claim C9. The second handler is the first one again: on every platform, event,
  context and world both give the same result and leave the same world.
\<close>

theorem classifier_is_serialize:
  "classifier_lambda_handler env event context w = serialize_lambda_handler env event context w"
  by (simp add: classifier_lambda_handler_def serialize_lambda_handler_def)

text \<open>
  Claim C2. The claim is that the second handler takes the image of the previous step,
  decodes it and returns the inferences of the model. On an event whose \<open>image_data\<close> is
  the encoding of \<open>world\<close>, and a store holding \<open>hello\<close> under the key, the handler
  downloads the object again, returns the encoding of \<open>hello\<close> as \<open>image_data\<close>, never
  having read the \<open>image_data\<close> of the event, and returns no inference at all.
\<close>

theorem classifier_makes_no_prediction:
  "classifier_lambda_handler store_platform
     (JObj [(''image_data'', JStr ''d29ybGQ=''),
            (''s3_bucket'', JStr ''sagemaker-us-east-1-605922365623''),
            (''s3_key'', JStr ''test/bicycle_s_000513.png''),
            (''inferences'', JArr [])]) () test_store
   = (Inr [(''statusCode'', PJson (JInt 200)),
           (''body'', PDict [(''image_data'', PBytes [97, 71, 86, 115, 98, 71, 56, 61]),
                             (''s3_bucket'', PJson (JStr ''sagemaker-us-east-1-605922365623'')),
                             (''s3_key'', PJson (JStr ''test/bicycle_s_000513.png'')),
                             (''inferences'', PJson (JArr []))])],
      test_store\<lparr>files := [(''/tmp/image.png'', [104, 101, 108, 108, 111])],
                  stdout := [(''Event:'', [''image_data'', ''s3_bucket'', ''s3_key'', ''inferences''])]\<rparr>)"
  by (simp add: classifier_lambda_handler_def store_platform_def store_download_file_def
      store_read_binary_def store_print_keys_def test_store_def
      b64_digit_def b64_alphabet_def b64_pad_def Let_def)

end
